theory Spec2Isabelle
  imports Main
begin

section \<open>Vendor API: data model\<close>

text \<open>
  The controllers of the vendor API (\<open>vendorRegister\<close>, \<open>vendorLogin\<close>), the token
  middlewares (\<open>auth\<close>, \<open>verifyToken\<close>) and the single-vendor query are embedded as
  HOL functions. A handler takes the request and the database and returns the response
  it sends together with the database it leaves behind. The third-party libraries
  whose results the handlers only pass on (\<open>bcrypt\<close>, \<open>jsonwebtoken\<close>, and what
  Mongoose does with an array or an object on a string path) are parameters of the
  model; the values that the runtime draws at random (the salt of a hash, the
  identifier of a new document) are inputs of the handler. Console output is not
  modelled, and the database is taken to be connected.
\<close>

type_synonym objectId = string

text \<open>
  JSON values: what \<open>bodyParser.json()\<close> hands to the controllers and what
  \<open>res.json\<close> sends. The controllers do not check the type of a member of the body,
  so a member can be any value. A number is kept as the decimal text that JavaScript's
  \<open>String\<close> gives for it (12345 is \<open>JNumber ''12345''\<close>): nothing else of a number
  is observed by the handlers.
\<close>

datatype json =
    JNull
  | JBool bool
  | JNumber string
  | JString string
  | JArray "json list"
  | JObject "(string \<times> json) list"

record response =
  status :: nat
  body :: json

text \<open>
  A document of the \<open>vendors\<close> collection. The schema declares \<open>userName\<close>,
  \<open>email\<close> and \<open>password\<close> as required strings, \<open>email\<close> as unique, and
  \<open>firm\<close> as an array of references to \<open>Firm\<close> documents. A path of a document
  holds a string or nothing.
\<close>

record vendor =
  vendor_id :: objectId
  userName :: "string option"
  email :: "string option"
  password :: "string option"
  firm :: "objectId list"

record firmdoc =
  firm_id :: objectId
  firmName :: string

record db =
  vendors :: "vendor list"
  firms :: "firmdoc list"

text \<open>
  \<open>req.body\<close> of the two POST routes, a parsed JSON object: each of the three
  members that the controllers destructure is absent (\<open>undefined\<close>, here \<open>None\<close>)
  or some JSON value.
\<close>

record reqbody =
  req_userName :: "json option"
  req_email :: "json option"
  req_password :: "json option"

text \<open>What the runtime draws for one registration.\<close>

record entropy =
  new_ObjectId :: objectId
  salt :: string

text \<open>The exceptions that the calls inside the \<open>try\<close> blocks throw.\<close>

datatype error =
    BcryptArgumentError
  | CastError
  | ValidationError
  | DuplicateKeyError

section \<open>The bcrypt library\<close>

text \<open>
  \<open>bcrypt_hash data rounds salt\<close> is the string \<open>bcrypt.hash(data, rounds)\<close> resolves
  to when the generated salt is \<open>salt\<close>; \<open>bcrypt_compare data encrypted\<close> is the
  boolean \<open>bcrypt.compare(data, encrypted)\<close> resolves to. Both reject when the data
  is \<open>undefined\<close> or is not a string, and \<open>compare\<close> also when the stored value is
  missing.
\<close>

record bcrypt =
  bcrypt_hash :: "string \<Rightarrow> nat \<Rightarrow> string \<Rightarrow> string"
  bcrypt_compare :: "string \<Rightarrow> string \<Rightarrow> bool"

definition hash :: "bcrypt \<Rightarrow> json option \<Rightarrow> nat \<Rightarrow> string \<Rightarrow> error + string" where
  "hash lib data rounds s =
     (case data of
        Some (JString d) \<Rightarrow> Inr (bcrypt_hash lib d rounds s)
      | _ \<Rightarrow> Inl BcryptArgumentError)"

definition compare :: "bcrypt \<Rightarrow> json option \<Rightarrow> string option \<Rightarrow> error + bool" where
  "compare lib data encrypted =
     (case data of
        Some (JString d) \<Rightarrow>
          (case encrypted of
             None \<Rightarrow> Inl BcryptArgumentError
           | Some h \<Rightarrow> Inr (bcrypt_compare lib d h))
      | _ \<Rightarrow> Inl BcryptArgumentError)"

text \<open>
  The contract of the library that the claims about stored passwords rest on: a hash
  verifies against the data it was computed from, and it is not that data.
\<close>

definition bcrypt_contract :: "bcrypt \<Rightarrow> bool" where
  "bcrypt_contract lib \<longleftrightarrow>
     (\<forall>d r s. bcrypt_compare lib d (bcrypt_hash lib d r s)) \<and>
     (\<forall>d r s. bcrypt_hash lib d r s \<noteq> d)"

section \<open>The Vendor model\<close>

text \<open>
  Mongoose casts a value that is given for a string path. A string is taken as it is,
  \<open>null\<close> stays no value, a number or a boolean becomes its text. What becomes of
  an array or an object is left to two parameters: \<open>cast_compound\<close> is the string
  (or the cast error) that such a value gives as a path of a new document, and
  \<open>query_compound\<close> is the condition that such a value, as the value of a filter (an
  operator object like \<open>{"$ne": null}\<close>, an array), puts on the stored path, or the
  error that casting the filter throws.
\<close>

record mongoose =
  cast_compound :: "json \<Rightarrow> error + string option"
  query_compound :: "json \<Rightarrow> error + (string option \<Rightarrow> bool)"

fun castScalar :: "json \<Rightarrow> string option option" where
  "castScalar JNull = Some None"
| "castScalar (JBool b) = Some (Some (if b then ''true'' else ''false''))"
| "castScalar (JNumber n) = Some (Some n)"
| "castScalar (JString s) = Some (Some s)"
| "castScalar (JArray xs) = None"
| "castScalar (JObject kvs) = None"

definition castString :: "mongoose \<Rightarrow> json option \<Rightarrow> error + string option" where
  "castString m x =
     (case x of
        None \<Rightarrow> Inr None
      | Some j \<Rightarrow> (case castScalar j of Some s \<Rightarrow> Inr s | None \<Rightarrow> cast_compound m j))"

text \<open>
  The condition of the filter \<open>{email}\<close> on the stored email: equality with the cast
  value; an email that is absent from the request, or \<open>null\<close>, matches only a
  document without an email.
\<close>

definition castForQuery :: "mongoose \<Rightarrow> json option \<Rightarrow> error + (string option \<Rightarrow> bool)" where
  "castForQuery m x =
     (case x of
        None \<Rightarrow> Inr (\<lambda>e. e = None)
      | Some j \<Rightarrow>
          (case castScalar j of Some s \<Rightarrow> Inr (\<lambda>e. e = s) | None \<Rightarrow> query_compound m j))"

text \<open>\<open>Vendor.findOne({email})\<close>: the first document that the filter matches.\<close>

definition Vendor_findOne :: "mongoose \<Rightarrow> db \<Rightarrow> json option \<Rightarrow> error + vendor option" where
  "Vendor_findOne m d e =
     (case castForQuery m e of
        Inl err \<Rightarrow> Inl err
      | Inr matches \<Rightarrow> Inr (find (\<lambda>v. matches (email v)) (vendors d)))"

text \<open>
  \<open>new Vendor({userName, email, password: hashedPassword})\<close>: each value is cast to
  a string. A value that cannot be cast leaves its error in the document, and
  \<open>save\<close> raises it.
\<close>

definition new_Vendor ::
  "mongoose \<Rightarrow> objectId \<Rightarrow> json option \<Rightarrow> json option \<Rightarrow> json option \<Rightarrow> error + vendor" where
  "new_Vendor m oid u e p =
     (case castString m u of
        Inl err \<Rightarrow> Inl err
      | Inr u' \<Rightarrow>
          (case castString m e of
             Inl err \<Rightarrow> Inl err
           | Inr e' \<Rightarrow>
               (case castString m p of
                  Inl err \<Rightarrow> Inl err
                | Inr p' \<Rightarrow>
                    Inr \<lparr>vendor_id = oid, userName = u', email = e', password = p',
                         firm = []\<rparr>)))"

text \<open>
  The \<open>required: true\<close> validator of a string path of the schema: the value is
  present and is not the empty string.
\<close>

definition required :: "string option \<Rightarrow> bool" where
  "required x = (case x of None \<Rightarrow> False | Some s \<Rightarrow> s \<noteq> [])"

definition validate :: "vendor \<Rightarrow> bool" where
  "validate v \<longleftrightarrow> required (userName v) \<and> required (email v) \<and> required (password v)"

text \<open>
  \<open>newVendor.save()\<close>: validation, then the insert, which the unique indexes on
  \<open>_id\<close> and on \<open>email\<close> reject when the key is already there.
\<close>

definition save :: "db \<Rightarrow> error + vendor \<Rightarrow> error + db" where
  "save d doc =
     (case doc of
        Inl err \<Rightarrow> Inl ValidationError
      | Inr v \<Rightarrow>
          (if \<not> validate v then Inl ValidationError
           else if vendor_id v \<in> set (map vendor_id (vendors d)) then Inl DuplicateKeyError
           else if email v \<in> set (map email (vendors d)) then Inl DuplicateKeyError
           else Inr (d\<lparr>vendors := vendors d @ [v]\<rparr>)))"

section \<open>The controllers\<close>

definition internal_server_error :: response where
  "internal_server_error =
     \<lparr>status = 500, body = JObject [(''error'', JString ''Internal server error'')]\<rparr>"

definition vendorRegister ::
  "mongoose \<Rightarrow> bcrypt \<Rightarrow> entropy \<Rightarrow> reqbody \<Rightarrow> db \<Rightarrow> response \<times> db" where
  "vendorRegister m lib rnd b d =
     (case Vendor_findOne m d (req_email b) of
        Inl err \<Rightarrow> (internal_server_error, d)
      | Inr (Some vendorEmail) \<Rightarrow>
          (\<lparr>status = 400, body = JString ''Email already taken''\<rparr>, d)
      | Inr None \<Rightarrow>
          (case hash lib (req_password b) 10 (salt rnd) of
             Inl err \<Rightarrow> (internal_server_error, d)
           | Inr hashedPassword \<Rightarrow>
               (case save d (new_Vendor m (new_ObjectId rnd) (req_userName b) (req_email b)
                               (Some (JString hashedPassword))) of
                  Inl err \<Rightarrow> (internal_server_error, d)
                | Inr d' \<Rightarrow>
                    (\<lparr>status = 201,
                      body = JObject [(''message'', JString ''Vendor registered successfully'')]\<rparr>,
                     d'))))"

definition vendorLogin :: "mongoose \<Rightarrow> bcrypt \<Rightarrow> reqbody \<Rightarrow> db \<Rightarrow> response \<times> db" where
  "vendorLogin m lib b d =
     (case Vendor_findOne m d (req_email b) of
        Inl err \<Rightarrow> (internal_server_error, d)
      | Inr None \<Rightarrow>
          (\<lparr>status = 401, body = JObject [(''error'', JString ''Invalid username or password'')]\<rparr>, d)
      | Inr (Some vendor) \<Rightarrow>
          (case compare lib (req_password b) (password vendor) of
             Inl err \<Rightarrow> (internal_server_error, d)
           | Inr False \<Rightarrow>
               (\<lparr>status = 401,
                 body = JObject [(''error'', JString ''Invalid username or password'')]\<rparr>, d)
           | Inr True \<Rightarrow>
               (\<lparr>status = 200, body = JObject [(''success'', JString ''Login successful'')]\<rparr>,
                d)))"

section \<open>Reachable databases\<close>

text \<open>
  The databases the API can produce from an empty \<open>vendors\<close> collection. Besides whole
  runs of the two controllers there is a step for a bare \<open>save\<close>: it is the insert of
  a registration whose \<open>findOne\<close> ran before another request changed the collection,
  so that every interleaving of registrations is covered.
\<close>

inductive reachable :: "mongoose \<Rightarrow> bcrypt \<Rightarrow> db \<Rightarrow> bool"
  for m :: mongoose and lib :: bcrypt where
  initial: "vendors d = [] \<Longrightarrow> reachable m lib d"
| register: "reachable m lib d \<Longrightarrow> reachable m lib (snd (vendorRegister m lib rnd b d))"
| login: "reachable m lib d \<Longrightarrow> reachable m lib (snd (vendorLogin m lib b d))"
| insert: "reachable m lib d \<Longrightarrow> save d doc = Inr d' \<Longrightarrow> reachable m lib d'"

section \<open>JSON bodies\<close>

text \<open>The member of an object under a name; any other value has no members.\<close>

definition json_member :: "string \<Rightarrow> json \<Rightarrow> json option" where
  "json_member k j = (case j of JObject kvs \<Rightarrow> map_of kvs k | _ \<Rightarrow> None)"

text \<open>Every member name that occurs in a body, at any depth.\<close>

fun json_keys :: "json \<Rightarrow> string list" where
  "json_keys JNull = []"
| "json_keys (JBool b) = []"
| "json_keys (JNumber n) = []"
| "json_keys (JString s) = []"
| "json_keys (JArray xs) = concat (map json_keys xs)"
| "json_keys (JObject kvs) = concat (map (\<lambda>kv. fst kv # json_keys (snd kv)) kvs)"

section \<open>The jsonwebtoken library and the token middlewares\<close>

text \<open>
  The claims of a token: the \<open>vendorId\<close> that the application puts in, and the
  \<open>iat\<close> and \<open>exp\<close> timestamps (seconds) that signing with \<open>expiresIn\<close> adds.
\<close>

record payload =
  vendorId :: "objectId option"
  iat :: "nat option"
  exp :: "nat option"

datatype jwt_error = TokenExpiredError | JsonWebTokenError

text \<open>
  \<open>jwt_sign payload key expiresIn clock\<close> is the token \<open>jwt.sign(payload, key,
  {expiresIn})\<close> returns when the clock reads \<open>clock\<close> seconds;
  \<open>jwt_verify token key clock\<close> is the decoded payload or the error of
  \<open>jwt.verify(token, key)\<close> at that time.
\<close>

record jwt =
  jwt_sign :: "payload \<Rightarrow> string \<Rightarrow> nat \<Rightarrow> nat \<Rightarrow> string"
  jwt_verify :: "string \<Rightarrow> string \<Rightarrow> nat \<Rightarrow> jwt_error + payload"

text \<open>
  The contract of the library: a token verifies under the key it was signed with
  until its expiry and yields the signed payload with both timestamps; from the expiry
  on it is refused. A token is a non-empty string without spaces.
\<close>

definition jwt_contract :: "jwt \<Rightarrow> bool" where
  "jwt_contract lib \<longleftrightarrow>
     (\<forall>p k ttl t0 t.
        jwt_verify lib (jwt_sign lib p k ttl t0) k t =
          (if t < t0 + ttl then Inr (p\<lparr>iat := Some t0, exp := Some (t0 + ttl)\<rparr>)
           else Inl TokenExpiredError)) \<and>
     (\<forall>p k ttl t0. jwt_sign lib p k ttl t0 \<noteq> [] \<and> CHR '' '' \<notin> set (jwt_sign lib p k ttl t0))"

text \<open>
  Token generation at login:
  \<open>jwt.sign({ vendorId: vendor._id }, secretKey, { expiresIn: "1h" })\<close>.
\<close>

definition issue :: "jwt \<Rightarrow> string \<Rightarrow> nat \<Rightarrow> objectId \<Rightarrow> string" where
  "issue lib secretKey clock vid =
     jwt_sign lib \<lparr>vendorId = Some vid, iat = None, exp = None\<rparr> secretKey 3600 clock"

text \<open>
  A request as the middlewares see it: the headers under their lower-case names and
  the \<open>vendorId\<close> property that a middleware sets (absent at first).
\<close>

record request =
  headers :: "string \<Rightarrow> string option"
  req_vendorId :: "objectId option"

text \<open>A middleware either sends a response or calls \<open>next()\<close> on the request.\<close>

datatype outcome = Respond response | Next request

text \<open>\<open>s.split(c)\<close>: the pieces between the occurrences of \<open>c\<close>, empty ones included.\<close>

fun split :: "char \<Rightarrow> string \<Rightarrow> string list" where
  "split c [] = [[]]"
| "split c (x # xs) =
     (if x = c then [] # split c xs
      else (case split c xs of [] \<Rightarrow> [[x]] | w # ws \<Rightarrow> (x # w) # ws))"

text \<open>\<open>xs[i]\<close>, which is \<open>undefined\<close> beyond the end.\<close>

definition index :: "'a list \<Rightarrow> nat \<Rightarrow> 'a option" where
  "index xs i = (if i < length xs then Some (xs ! i) else None)"

text \<open>\<open>!token\<close> for a string that may be undefined: true when undefined or empty.\<close>

definition falsy :: "string option \<Rightarrow> bool" where
  "falsy t = (case t of None \<Rightarrow> True | Some s \<Rightarrow> s = [])"

definition verified :: "request \<Rightarrow> jwt_error + payload \<Rightarrow> outcome" where
  "verified req r =
     (case r of
        Inl err \<Rightarrow> Respond \<lparr>status = 403, body = JObject [(''error'', JString ''Invalid token'')]\<rparr>
      | Inr decoded \<Rightarrow> Next (req\<lparr>req_vendorId := vendorId decoded\<rparr>))"

text \<open>\<open>req.headers.authorization?.split(" ")[1]\<close>.\<close>

definition authorization_token :: "request \<Rightarrow> string option" where
  "authorization_token req =
     (case headers req ''authorization'' of
        None \<Rightarrow> None
      | Some a \<Rightarrow> index (split CHR '' '' a) 1)"

definition auth :: "jwt \<Rightarrow> string \<Rightarrow> nat \<Rightarrow> request \<Rightarrow> outcome" where
  "auth lib secretKey clock req =
     (let token = authorization_token req
      in if falsy token
         then Respond \<lparr>status = 401, body = JObject [(''error'', JString ''Token missing'')]\<rparr>
         else (case token of
                 None \<Rightarrow> Respond \<lparr>status = 401,
                                  body = JObject [(''error'', JString ''Token missing'')]\<rparr>
               | Some t \<Rightarrow> verified req (jwt_verify lib t secretKey clock)))"

definition verifyToken :: "jwt \<Rightarrow> string \<Rightarrow> nat \<Rightarrow> request \<Rightarrow> outcome" where
  "verifyToken lib secretKey clock req =
     (let token = headers req ''token''
      in if falsy token
         then Respond \<lparr>status = 401, body = JObject [(''error'', JString ''Token required'')]\<rparr>
         else (case token of
                 None \<Rightarrow> Respond \<lparr>status = 401,
                                  body = JObject [(''error'', JString ''Token required'')]\<rparr>
               | Some t \<Rightarrow> verified req (jwt_verify lib t secretKey clock)))"

section \<open>The single-vendor query\<close>

text \<open>\<open>Vendor.findById(vendorId)\<close>: the document with that \<open>_id\<close>.\<close>

definition Vendor_findById :: "db \<Rightarrow> objectId \<Rightarrow> vendor option" where
  "Vendor_findById d i = find (\<lambda>v. vendor_id v = i) (vendors d)"

text \<open>A vendor whose \<open>firm\<close> array holds the referenced documents themselves.\<close>

record populated_vendor =
  pv_id :: objectId
  pv_userName :: "string option"
  pv_email :: "string option"
  pv_password :: "string option"
  pv_firm :: "firmdoc list"

text \<open>
  \<open>.populate('firm')\<close>: every reference is replaced by the \<open>Firm\<close> document with
  that \<open>_id\<close>; a reference to no document leaves no entry.
\<close>

definition populate :: "db \<Rightarrow> vendor \<Rightarrow> populated_vendor" where
  "populate d v =
     \<lparr>pv_id = vendor_id v, pv_userName = userName v, pv_email = email v,
      pv_password = password v,
      pv_firm = List.map_filter (\<lambda>r. find (\<lambda>f. firm_id f = r) (firms d)) (firm v)\<rparr>"

datatype get_vendor_error = NotFound | InvalidId

definition error_status :: "get_vendor_error \<Rightarrow> nat" where
  "error_status e = (case e of NotFound \<Rightarrow> 404 | InvalidId \<Rightarrow> 500)"

text \<open>
  Modelled from the spec: the body of the controller \<open>getVendorById\<close> is missing from
  the sources, which hold its route, its query
  \<open>Vendor.findById(vendorId).populate('firm')\<close> and the note that a vendor that does
  not exist gives a 404. Following the specification of \<open>get_vendor(id)\<close>, it returns
  one vendor with resolved firm data, fails with \<open>NotFound\<close> (404) if no record
  matches the identifier, and fails with \<open>InvalidId\<close> (surfacing as a generic 500) if
  the identifier is malformed. Which strings are well-formed identifiers is the
  parameter \<open>wellformed\<close>.
\<close>

definition getVendorById :: "(string \<Rightarrow> bool) \<Rightarrow> db \<Rightarrow> string \<Rightarrow> get_vendor_error + populated_vendor" where
  "getVendorById wellformed d vid =
     (if \<not> wellformed vid then Inl InvalidId
      else (case Vendor_findById d vid of
              None \<Rightarrow> Inl NotFound
            | Some vendor \<Rightarrow> Inr (populate d vendor)))"

section \<open>Fixtures\<close>

text \<open>
  Small implementations of the library interfaces, on which the theorems are
  instantiated. The stand-in for bcrypt appends a separator and the salt to the data;
  the stand-in for jsonwebtoken writes the expiry and the issue time in unary and the
  vendor identifier with its spaces escaped. The stand-in for Mongoose casts an object
  with a string \<open>_id\<close> to that string and no other compound value, and as filters it
  knows \<open>{"$ne": x}\<close> and \<open>{"$eq": x}\<close> for a scalar \<open>x\<close>.
\<close>

definition stub_bcrypt :: bcrypt where
  "stub_bcrypt =
     \<lparr>bcrypt_hash = (\<lambda>d r s. d @ ''$'' @ s),
      bcrypt_compare = (\<lambda>d h. take (Suc (length d)) h = d @ ''$'')\<rparr>"

definition stub_cast :: "json \<Rightarrow> error + string option" where
  "stub_cast j =
     (case json_member ''_id'' j of
        Some (JString i) \<Rightarrow> (if i = [] then Inl CastError else Inr (Some i))
      | _ \<Rightarrow> Inl CastError)"

definition stub_query :: "json \<Rightarrow> error + (string option \<Rightarrow> bool)" where
  "stub_query j =
     (case j of
        JObject [(k, x)] \<Rightarrow>
          (case castScalar x of
             None \<Rightarrow> Inl CastError
           | Some s \<Rightarrow>
               (if k = ''$ne'' then Inr (\<lambda>e. e \<noteq> s)
                else if k = ''$eq'' then Inr (\<lambda>e. e = s)
                else Inl CastError))
      | _ \<Rightarrow> Inl CastError)"

definition stub_mongoose :: mongoose where
  "stub_mongoose = \<lparr>cast_compound = stub_cast, query_compound = stub_query\<rparr>"

fun esc :: "string \<Rightarrow> string" where
  "esc [] = []"
| "esc (c # cs) =
     (if c = CHR '' '' then CHR ''+'' # CHR ''s'' # esc cs
      else if c = CHR ''+'' then CHR ''+'' # CHR ''+'' # esc cs
      else c # esc cs)"

fun unesc :: "string \<Rightarrow> string" where
  "unesc [] = []"
| "unesc [c] = [c]"
| "unesc (c # e # cs) =
     (if c = CHR ''+'' then (if e = CHR ''s'' then CHR '' '' else e) # unesc cs
      else c # unesc (e # cs))"

definition stub_sign :: "payload \<Rightarrow> string \<Rightarrow> nat \<Rightarrow> nat \<Rightarrow> string" where
  "stub_sign p k ttl t0 =
     replicate (t0 + ttl) CHR ''e'' @ CHR ''.'' # replicate t0 CHR ''i'' @ CHR ''.'' #
     (case vendorId p of None \<Rightarrow> ''n'' | Some v \<Rightarrow> CHR ''v'' # esc v)"

definition stub_verify :: "string \<Rightarrow> string \<Rightarrow> nat \<Rightarrow> jwt_error + payload" where
  "stub_verify tok k t =
     (let e = takeWhile (\<lambda>c. c = CHR ''e'') tok;
          r1 = drop (Suc (length e)) tok;
          i = takeWhile (\<lambda>c. c = CHR ''i'') r1;
          r2 = drop (Suc (length i)) r1
      in if length tok \<le> length e \<or> length r1 \<le> length i \<or> r2 = []
         then Inl JsonWebTokenError
         else if length e \<le> t then Inl TokenExpiredError
         else Inr \<lparr>vendorId = (if hd r2 = CHR ''v'' then Some (unesc (tl r2)) else None),
                   iat = Some (length i), exp = Some (length e)\<rparr>)"

definition stub_jwt :: jwt where
  "stub_jwt = \<lparr>jwt_sign = stub_sign, jwt_verify = stub_verify\<rparr>"

text \<open>A database with one registered vendor and one firm, and some request bodies.\<close>

definition ramesh :: vendor where
  "ramesh =
     \<lparr>vendor_id = ''65afbd23c09e11'', userName = Some ''Ramesh'',
      email = Some ''ramesh@example.com'', password = Some ''strongpassword123$salt'',
      firm = [''64ab12'']\<rparr>"

definition db1 :: db where
  "db1 = \<lparr>vendors = [ramesh], firms = [\<lparr>firm_id = ''64ab12'', firmName = ''Ramesh Foods''\<rparr>]\<rparr>"

definition body_ramesh :: reqbody where
  "body_ramesh =
     \<lparr>req_userName = Some (JString ''Ramesh''),
      req_email = Some (JString ''ramesh@example.com''),
      req_password = Some (JString ''strongpassword123'')\<rparr>"

definition body_new :: reqbody where
  "body_new =
     \<lparr>req_userName = Some (JString ''Sita''), req_email = Some (JString ''sita@example.com''),
      req_password = Some (JString ''pw'')\<rparr>"

definition body_nopw :: reqbody where
  "body_nopw =
     \<lparr>req_userName = Some (JString ''Sita''), req_email = Some (JString ''sita@example.com''),
      req_password = None\<rparr>"

definition body_numpw :: reqbody where
  "body_numpw =
     \<lparr>req_userName = Some (JString ''Sita''), req_email = Some (JString ''sita@example.com''),
      req_password = Some (JNumber ''12345'')\<rparr>"

definition body_ne :: reqbody where
  "body_ne =
     \<lparr>req_userName = Some (JString ''Sita''),
      req_email = Some (JObject [(''$ne'', JNull)]),
      req_password = Some (JString ''pw'')\<rparr>"

definition rnd1 :: entropy where
  "rnd1 = \<lparr>new_ObjectId = ''65afbd23c09e12'', salt = ''salt''\<rparr>"

text \<open>An identifier check for the single-vendor query: hexadecimal digits only.\<close>

definition hex_string :: "string \<Rightarrow> bool" where
  "hex_string s = list_all (\<lambda>c. c \<in> set ''0123456789abcdef'') s"

text \<open>A request that carries a token issued at second 100 for the vendor of \<open>db1\<close>.\<close>

definition req_bearer :: request where
  "req_bearer =
     \<lparr>headers = [''authorization'' \<mapsto>
                   ''Bearer '' @ issue stub_jwt ''secret'' 100 ''65afbd23c09e11'',
                 ''token'' \<mapsto> issue stub_jwt ''secret'' 100 ''65afbd23c09e11''],
      req_vendorId = None\<rparr>"

definition req_anonymous :: request where
  "req_anonymous = \<lparr>headers = Map.empty, req_vendorId = None\<rparr>"

text \<open>Headers that are present but carry no token.\<close>

definition req_scheme_only :: request where
  "req_scheme_only =
     \<lparr>headers = [''authorization'' \<mapsto> ''Bearer'', ''token'' \<mapsto> ''''],
      req_vendorId = None\<rparr>"

definition req_empty_token :: request where
  "req_empty_token =
     \<lparr>headers = [''authorization'' \<mapsto> ''Bearer '', ''token'' \<mapsto> ''''],
      req_vendorId = None\<rparr>"

definition req_garbage :: request where
  "req_garbage =
     \<lparr>headers = [''authorization'' \<mapsto> ''Bearer garbage'', ''token'' \<mapsto> ''garbage''],
      req_vendorId = None\<rparr>"

section \<open>Registration\<close>

lemma find_SomeD: "find P xs = Some x \<Longrightarrow> x \<in> set xs \<and> P x"
  by (induction xs) (auto split: if_splits)

lemma find_None_image: "find (\<lambda>x. f x = k) xs = None \<longleftrightarrow> k \<notin> set (map f xs)"
  by (induction xs) auto

lemma find_snoc:
  "find P (xs @ [x]) =
     (case find P xs of None \<Rightarrow> (if P x then Some x else None) | Some y \<Rightarrow> Some y)"
  by (induction xs) auto

lemma findOne_string:
  "Vendor_findOne m d (Some (JString E)) = Inr (find (\<lambda>v. email v = Some E) (vendors d))"
  by (simp add: Vendor_findOne_def castForQuery_def)

text \<open>
  C2. When the collection holds exactly one vendor with email \<open>E\<close>, a registration
  with email \<open>E\<close> is answered with the duplicate-email error (status 400, "Email
  already taken") and the database is left as it was: it still holds exactly one
  vendor with that email.
\<close>

theorem register_twice_same_email:
  assumes "length (filter (\<lambda>v. email v = Some E) (vendors d)) = 1"
    and "req_email b = Some (JString E)"
  shows "vendorRegister m lib rnd b d =
           (\<lparr>status = 400, body = JString ''Email already taken''\<rparr>, d)
         \<and> length (filter (\<lambda>v. email v = Some E)
                     (vendors (snd (vendorRegister m lib rnd b d)))) = 1"
proof -
  from assms(1) have "filter (\<lambda>v. email v = Some E) (vendors d) \<noteq> []"
    by auto
  then have "Some E \<in> set (map email (vendors d))"
    by (force simp: filter_empty_conv)
  then have "find (\<lambda>v. email v = Some E) (vendors d) \<noteq> None"
    by (simp add: find_None_image)
  then obtain v where "Vendor_findOne m d (req_email b) = Inr (Some v)"
    using assms(2) by (auto simp: findOne_string)
  then have "vendorRegister m lib rnd b d =
               (\<lparr>status = 400, body = JString ''Email already taken''\<rparr>, d)"
    by (simp add: vendorRegister_def)
  with assms(1) show ?thesis by simp
qed

theorem register_twice_same_email_witness:
  "length (filter (\<lambda>v. email v = Some ''ramesh@example.com'') (vendors db1)) = 1
   \<and> req_email body_ramesh = Some (JString ''ramesh@example.com'')
   \<and> vendorRegister stub_mongoose stub_bcrypt rnd1 body_ramesh db1 =
       (\<lparr>status = 400, body = JString ''Email already taken''\<rparr>, db1)
   \<and> length (filter (\<lambda>v. email v = Some ''ramesh@example.com'')
               (vendors (snd (vendorRegister stub_mongoose stub_bcrypt rnd1 body_ramesh db1)))) = 1"
proof -
  have h1: "length (filter (\<lambda>v. email v = Some ''ramesh@example.com'') (vendors db1)) = 1"
    by (simp add: db1_def ramesh_def)
  have h2: "req_email body_ramesh = Some (JString ''ramesh@example.com'')"
    by (simp add: body_ramesh_def)
  from register_twice_same_email [OF h1 h2, of stub_mongoose stub_bcrypt rnd1] h1 h2
  show ?thesis by simp
qed

lemma register_found:
  assumes "Vendor_findOne m d (req_email b) = Inr (Some v)"
  shows "vendorRegister m lib rnd b d =
           (\<lparr>status = 400, body = JString ''Email already taken''\<rparr>, d)"
  using assms by (simp add: vendorRegister_def)

lemma register_lookup_error:
  assumes "Vendor_findOne m d (req_email b) = Inl err"
  shows "vendorRegister m lib rnd b d = (internal_server_error, d)"
  using assms by (simp add: vendorRegister_def)

lemma register_fresh:
  assumes "Vendor_findOne m d (req_email b) = Inr None"
  shows "vendorRegister m lib rnd b d =
     (case hash lib (req_password b) 10 (salt rnd) of
        Inl err \<Rightarrow> (internal_server_error, d)
      | Inr hashedPassword \<Rightarrow>
          (case save d (new_Vendor m (new_ObjectId rnd) (req_userName b) (req_email b)
                          (Some (JString hashedPassword))) of
             Inl err \<Rightarrow> (internal_server_error, d)
           | Inr d' \<Rightarrow>
               (\<lparr>status = 201,
                 body = JObject [(''message'', JString ''Vendor registered successfully'')]\<rparr>,
                d')))"
  using assms by (simp add: vendorRegister_def)

lemma hash_Inr: "hash lib x r s = Inr h \<longleftrightarrow> (\<exists>p. x = Some (JString p) \<and> h = bcrypt_hash lib p r s)"
  by (auto simp: hash_def split: option.splits json.splits)

lemma save_Inr:
  "save d doc = Inr d' \<longleftrightarrow>
     (\<exists>v. doc = Inr v \<and> validate v \<and> vendor_id v \<notin> set (map vendor_id (vendors d))
          \<and> email v \<notin> set (map email (vendors d)) \<and> d' = d\<lparr>vendors := vendors d @ [v]\<rparr>)"
  by (auto simp: save_def split: sum.splits)

lemma new_Vendor_Inr:
  "new_Vendor m oid u e (Some (JString h)) = Inr v \<longleftrightarrow>
     (\<exists>u' e'. castString m u = Inr u' \<and> castString m e = Inr e'
        \<and> v = \<lparr>vendor_id = oid, userName = u', email = e', password = Some h, firm = []\<rparr>)"
  by (auto simp: new_Vendor_def castString_def split: sum.splits)

text \<open>What a registration that answers 201 has done.\<close>

lemma register_created:
  assumes "status (fst (vendorRegister m lib rnd b d)) = 201"
  shows "\<exists>p u e. Vendor_findOne m d (req_email b) = Inr None
           \<and> req_password b = Some (JString p)
           \<and> castString m (req_userName b) = Inr (Some u) \<and> u \<noteq> []
           \<and> castString m (req_email b) = Inr (Some e) \<and> e \<noteq> []
           \<and> bcrypt_hash lib p 10 (salt rnd) \<noteq> []
           \<and> new_ObjectId rnd \<notin> set (map vendor_id (vendors d))
           \<and> Some e \<notin> set (map email (vendors d))
           \<and> snd (vendorRegister m lib rnd b d) =
               d\<lparr>vendors := vendors d @
                 [\<lparr>vendor_id = new_ObjectId rnd, userName = Some u, email = Some e,
                   password = Some (bcrypt_hash lib p 10 (salt rnd)), firm = []\<rparr>]\<rparr>"
proof (cases "Vendor_findOne m d (req_email b)")
  case (Inl err)
  with assms show ?thesis
    by (simp add: register_lookup_error internal_server_error_def)
next
  case (Inr r)
  show ?thesis
  proof (cases r)
    case (Some v)
    with Inr assms show ?thesis by (simp add: register_found)
  next
    case None
    with Inr have fresh: "Vendor_findOne m d (req_email b) = Inr None" by simp
    note reg = register_fresh [OF fresh, of lib rnd]
    from assms reg obtain h where h: "hash lib (req_password b) 10 (salt rnd) = Inr h"
      by (cases "hash lib (req_password b) 10 (salt rnd)")
         (auto simp: internal_server_error_def)
    then obtain p where p: "req_password b = Some (JString p)"
      and hp: "h = bcrypt_hash lib p 10 (salt rnd)"
      by (auto simp: hash_Inr)
    let ?doc = "new_Vendor m (new_ObjectId rnd) (req_userName b) (req_email b)
                  (Some (JString h))"
    from assms reg h obtain d' where d': "save d ?doc = Inr d'"
      by (cases "save d ?doc") (auto simp: internal_server_error_def)
    with reg h have snd: "snd (vendorRegister m lib rnd b d) = d'" by simp
    from d' obtain v where v: "?doc = Inr v" and val: "validate v"
      and id: "vendor_id v \<notin> set (map vendor_id (vendors d))"
      and em: "email v \<notin> set (map email (vendors d))"
      and dd: "d' = d\<lparr>vendors := vendors d @ [v]\<rparr>"
      by (auto simp: save_Inr)
    from v obtain u' e' where cu: "castString m (req_userName b) = Inr u'"
      and ce: "castString m (req_email b) = Inr e'"
      and veq: "v = \<lparr>vendor_id = new_ObjectId rnd, userName = u', email = e',
                     password = Some h, firm = []\<rparr>"
      by (auto simp: new_Vendor_Inr)
    from val veq obtain u e where "u' = Some u" "u \<noteq> []" "e' = Some e" "e \<noteq> []" "h \<noteq> []"
      by (auto simp: validate_def required_def split: option.splits)
    with fresh p hp cu ce veq id em dd snd show ?thesis by auto
  qed
qed

text \<open>
  C1, as amended. If the lookup by the email of the request finds a vendor,
  \<open>vendorRegister\<close> answers with status 400 and stores nothing. If the lookup finds
  none, and the password is a string, \<open>userName\<close> and \<open>email\<close> are cast by the
  schema to strings that are not empty, the hash is not empty, and neither the
  identifier of the new document nor its email is a key that is already stored, then
  it hashes the password with bcrypt at cost factor 10 and appends a vendor with that
  hash, answering 201 with \<open>{message: "Vendor registered successfully"}\<close>. In every
  remaining case it answers 500 with \<open>{error: "Internal server error"}\<close> and stores
  nothing. The body of the 400 answer is not part of this statement.
\<close>

theorem vendorRegister_outcomes:
  "(Vendor_findOne m d (req_email b) = Inr (Some v) \<longrightarrow>
      status (fst (vendorRegister m lib rnd b d)) = 400
      \<and> snd (vendorRegister m lib rnd b d) = d)
   \<and> (Vendor_findOne m d (req_email b) = Inr None
        \<and> req_password b = Some (JString p)
        \<and> castString m (req_userName b) = Inr (Some u) \<and> u \<noteq> []
        \<and> castString m (req_email b) = Inr (Some e) \<and> e \<noteq> []
        \<and> bcrypt_hash lib p 10 (salt rnd) \<noteq> []
        \<and> new_ObjectId rnd \<notin> set (map vendor_id (vendors d))
        \<and> Some e \<notin> set (map email (vendors d)) \<longrightarrow>
      vendorRegister m lib rnd b d =
        (\<lparr>status = 201,
          body = JObject [(''message'', JString ''Vendor registered successfully'')]\<rparr>,
         d\<lparr>vendors := vendors d @
              [\<lparr>vendor_id = new_ObjectId rnd, userName = Some u, email = Some e,
                password = Some (bcrypt_hash lib p 10 (salt rnd)), firm = []\<rparr>]\<rparr>))
   \<and> ((\<forall>v'. Vendor_findOne m d (req_email b) \<noteq> Inr (Some v'))
        \<and> \<not> (\<exists>p' u' e'. Vendor_findOne m d (req_email b) = Inr None
               \<and> req_password b = Some (JString p')
               \<and> castString m (req_userName b) = Inr (Some u') \<and> u' \<noteq> []
               \<and> castString m (req_email b) = Inr (Some e') \<and> e' \<noteq> []
               \<and> bcrypt_hash lib p' 10 (salt rnd) \<noteq> []
               \<and> new_ObjectId rnd \<notin> set (map vendor_id (vendors d))
               \<and> Some e' \<notin> set (map email (vendors d))) \<longrightarrow>
      vendorRegister m lib rnd b d =
        (\<lparr>status = 500, body = JObject [(''error'', JString ''Internal server error'')]\<rparr>,
         d))"
proof (intro conjI impI)
  assume "Vendor_findOne m d (req_email b) = Inr (Some v)"
  then show "status (fst (vendorRegister m lib rnd b d)) = 400"
    and "snd (vendorRegister m lib rnd b d) = d"
    by (simp_all add: register_found)
next
  assume a: "Vendor_findOne m d (req_email b) = Inr None
        \<and> req_password b = Some (JString p)
        \<and> castString m (req_userName b) = Inr (Some u) \<and> u \<noteq> []
        \<and> castString m (req_email b) = Inr (Some e) \<and> e \<noteq> []
        \<and> bcrypt_hash lib p 10 (salt rnd) \<noteq> []
        \<and> new_ObjectId rnd \<notin> set (map vendor_id (vendors d))
        \<and> Some e \<notin> set (map email (vendors d))"
  then have fresh: "Vendor_findOne m d (req_email b) = Inr None" by simp
  from a show "vendorRegister m lib rnd b d =
        (\<lparr>status = 201,
          body = JObject [(''message'', JString ''Vendor registered successfully'')]\<rparr>,
         d\<lparr>vendors := vendors d @
              [\<lparr>vendor_id = new_ObjectId rnd, userName = Some u, email = Some e,
                password = Some (bcrypt_hash lib p 10 (salt rnd)), firm = []\<rparr>]\<rparr>)"
    by (simp add: register_fresh [OF fresh] hash_def new_Vendor_def castString_def
        save_def validate_def required_def)
next
  assume a: "(\<forall>v'. Vendor_findOne m d (req_email b) \<noteq> Inr (Some v'))
        \<and> \<not> (\<exists>p' u' e'. Vendor_findOne m d (req_email b) = Inr None
               \<and> req_password b = Some (JString p')
               \<and> castString m (req_userName b) = Inr (Some u') \<and> u' \<noteq> []
               \<and> castString m (req_email b) = Inr (Some e') \<and> e' \<noteq> []
               \<and> bcrypt_hash lib p' 10 (salt rnd) \<noteq> []
               \<and> new_ObjectId rnd \<notin> set (map vendor_id (vendors d))
               \<and> Some e' \<notin> set (map email (vendors d)))"
  have not201: "status (fst (vendorRegister m lib rnd b d)) \<noteq> 201"
  proof
    assume "status (fst (vendorRegister m lib rnd b d)) = 201"
    from register_created [OF this] a show False by blast
  qed
  show "vendorRegister m lib rnd b d =
        (\<lparr>status = 500, body = JObject [(''error'', JString ''Internal server error'')]\<rparr>,
         d)"
  proof (cases "Vendor_findOne m d (req_email b)")
    case (Inl err)
    then show ?thesis
      by (simp add: register_lookup_error internal_server_error_def)
  next
    case (Inr r)
    with a have fresh: "Vendor_findOne m d (req_email b) = Inr None"
      by (cases r) auto
    from not201 show ?thesis
      unfolding register_fresh [OF fresh]
      by (auto simp: internal_server_error_def split: sum.splits)
  qed
qed

theorem vendorRegister_outcomes_witness:
  "Vendor_findOne stub_mongoose db1 (req_email body_ramesh) = Inr (Some ramesh)
   \<and> status (fst (vendorRegister stub_mongoose stub_bcrypt rnd1 body_ramesh db1)) = 400
   \<and> snd (vendorRegister stub_mongoose stub_bcrypt rnd1 body_ramesh db1) = db1
   \<and> Vendor_findOne stub_mongoose db1 (req_email body_ne) = Inr (Some ramesh)
   \<and> status (fst (vendorRegister stub_mongoose stub_bcrypt rnd1 body_ne db1)) = 400
   \<and> snd (vendorRegister stub_mongoose stub_bcrypt rnd1 body_ne db1) = db1
   \<and> Vendor_findOne stub_mongoose db1 (req_email body_new) = Inr None
   \<and> req_password body_new = Some (JString ''pw'')
   \<and> castString stub_mongoose (req_userName body_new) = Inr (Some ''Sita'')
   \<and> castString stub_mongoose (req_email body_new) = Inr (Some ''sita@example.com'')
   \<and> bcrypt_hash stub_bcrypt ''pw'' 10 (salt rnd1) \<noteq> []
   \<and> new_ObjectId rnd1 \<notin> set (map vendor_id (vendors db1))
   \<and> Some ''sita@example.com'' \<notin> set (map email (vendors db1))
   \<and> vendorRegister stub_mongoose stub_bcrypt rnd1 body_new db1 =
        (\<lparr>status = 201,
          body = JObject [(''message'', JString ''Vendor registered successfully'')]\<rparr>,
         db1\<lparr>vendors := [ramesh,
              \<lparr>vendor_id = ''65afbd23c09e12'', userName = Some ''Sita'',
               email = Some ''sita@example.com'', password = Some ''pw$salt'',
               firm = []\<rparr>]\<rparr>)
   \<and> Vendor_findOne stub_mongoose db1 (req_email body_nopw) = Inr None
   \<and> req_password body_nopw = None
   \<and> vendorRegister stub_mongoose stub_bcrypt rnd1 body_nopw db1 =
        (\<lparr>status = 500, body = JObject [(''error'', JString ''Internal server error'')]\<rparr>,
         db1)
   \<and> Vendor_findOne stub_mongoose db1 (req_email body_numpw) = Inr None
   \<and> req_password body_numpw = Some (JNumber ''12345'')
   \<and> vendorRegister stub_mongoose stub_bcrypt rnd1 body_numpw db1 =
        (\<lparr>status = 500, body = JObject [(''error'', JString ''Internal server error'')]\<rparr>,
         db1)"
proof -
  have dup: "Vendor_findOne stub_mongoose db1 (req_email body_ramesh) = Inr (Some ramesh)"
    by (simp add: findOne_string db1_def ramesh_def body_ramesh_def)
  have ne: "Vendor_findOne stub_mongoose db1 (req_email body_ne) = Inr (Some ramesh)"
    by (simp add: Vendor_findOne_def castForQuery_def stub_mongoose_def stub_query_def
        db1_def ramesh_def body_ne_def)
  have fresh: "Vendor_findOne stub_mongoose db1 (req_email body_new) = Inr None"
    by (simp add: findOne_string db1_def ramesh_def body_new_def)
  have fresh_nopw: "Vendor_findOne stub_mongoose db1 (req_email body_nopw) = Inr None"
    by (simp add: findOne_string db1_def ramesh_def body_nopw_def)
  have fresh_numpw: "Vendor_findOne stub_mongoose db1 (req_email body_numpw) = Inr None"
    by (simp add: findOne_string db1_def ramesh_def body_numpw_def)
  have ok: "req_password body_new = Some (JString ''pw'')
      \<and> castString stub_mongoose (req_userName body_new) = Inr (Some ''Sita'')
      \<and> castString stub_mongoose (req_email body_new) = Inr (Some ''sita@example.com'')
      \<and> bcrypt_hash stub_bcrypt ''pw'' 10 (salt rnd1) \<noteq> []
      \<and> new_ObjectId rnd1 \<notin> set (map vendor_id (vendors db1))
      \<and> Some ''sita@example.com'' \<notin> set (map email (vendors db1))"
    by (simp add: castString_def body_new_def stub_bcrypt_def rnd1_def db1_def ramesh_def)
  have nopw: "req_password body_nopw = None"
    by (simp add: body_nopw_def)
  have numpw: "req_password body_numpw = Some (JNumber ''12345'')"
    by (simp add: body_numpw_def)
  have new: "vendors db1 @
      [\<lparr>vendor_id = new_ObjectId rnd1, userName = Some ''Sita'',
        email = Some ''sita@example.com'',
        password = Some (bcrypt_hash stub_bcrypt ''pw'' 10 (salt rnd1)), firm = []\<rparr>]
      = [ramesh,
         \<lparr>vendor_id = ''65afbd23c09e12'', userName = Some ''Sita'',
          email = Some ''sita@example.com'', password = Some ''pw$salt'', firm = []\<rparr>]"
    by (simp add: db1_def rnd1_def stub_bcrypt_def)
  from vendorRegister_outcomes
         [of stub_mongoose db1 body_ramesh ramesh stub_bcrypt rnd1] dup
  have r1: "status (fst (vendorRegister stub_mongoose stub_bcrypt rnd1 body_ramesh db1)) = 400
      \<and> snd (vendorRegister stub_mongoose stub_bcrypt rnd1 body_ramesh db1) = db1"
    by blast
  from vendorRegister_outcomes
         [of stub_mongoose db1 body_ne ramesh stub_bcrypt rnd1] ne
  have r2: "status (fst (vendorRegister stub_mongoose stub_bcrypt rnd1 body_ne db1)) = 400
      \<and> snd (vendorRegister stub_mongoose stub_bcrypt rnd1 body_ne db1) = db1"
    by blast
  from vendorRegister_outcomes
         [of stub_mongoose db1 body_new _ stub_bcrypt rnd1 "''pw''" "''Sita''"
           "''sita@example.com''"] fresh ok
  have r3: "vendorRegister stub_mongoose stub_bcrypt rnd1 body_new db1 =
        (\<lparr>status = 201,
          body = JObject [(''message'', JString ''Vendor registered successfully'')]\<rparr>,
         db1\<lparr>vendors := [ramesh,
              \<lparr>vendor_id = ''65afbd23c09e12'', userName = Some ''Sita'',
               email = Some ''sita@example.com'', password = Some ''pw$salt'',
               firm = []\<rparr>]\<rparr>)"
    unfolding new [symmetric] by simp
  from vendorRegister_outcomes [of stub_mongoose db1 body_nopw _ stub_bcrypt rnd1]
    fresh_nopw nopw
  have r4: "vendorRegister stub_mongoose stub_bcrypt rnd1 body_nopw db1 =
        (\<lparr>status = 500, body = JObject [(''error'', JString ''Internal server error'')]\<rparr>,
         db1)"
    by simp
  from vendorRegister_outcomes [of stub_mongoose db1 body_numpw _ stub_bcrypt rnd1]
    fresh_numpw numpw
  have r5: "vendorRegister stub_mongoose stub_bcrypt rnd1 body_numpw db1 =
        (\<lparr>status = 500, body = JObject [(''error'', JString ''Internal server error'')]\<rparr>,
         db1)"
    by simp
  from dup ne fresh fresh_nopw fresh_numpw ok nopw numpw r1 r2 r3 r4 r5
  show ?thesis by blast
qed

text \<open>
  The claim as it was stated fails. The body of the 400 answer is the string
  "Email already taken" and has no \<open>error\<close> member; and a request with a fresh email
  whose password is missing, or is the number 12345, is answered 500 with nothing
  stored, not 201.
\<close>

theorem vendorRegister_counterexample:
  "Vendor_findOne stub_mongoose db1 (req_email body_ramesh) = Inr (Some ramesh)
   \<and> fst (vendorRegister stub_mongoose stub_bcrypt rnd1 body_ramesh db1) =
        \<lparr>status = 400, body = JString ''Email already taken''\<rparr>
   \<and> json_member ''error''
        (body (fst (vendorRegister stub_mongoose stub_bcrypt rnd1 body_ramesh db1))) = None
   \<and> Vendor_findOne stub_mongoose db1 (req_email body_nopw) = Inr None
   \<and> status (fst (vendorRegister stub_mongoose stub_bcrypt rnd1 body_nopw db1)) = 500
   \<and> snd (vendorRegister stub_mongoose stub_bcrypt rnd1 body_nopw db1) = db1
   \<and> Vendor_findOne stub_mongoose db1 (req_email body_numpw) = Inr None
   \<and> status (fst (vendorRegister stub_mongoose stub_bcrypt rnd1 body_numpw db1)) = 500
   \<and> snd (vendorRegister stub_mongoose stub_bcrypt rnd1 body_numpw db1) = db1"
  by (simp add: vendorRegister_def findOne_string db1_def ramesh_def body_ramesh_def
      body_nopw_def body_numpw_def hash_def json_member_def internal_server_error_def)

lemma stub_bcrypt_contract: "bcrypt_contract stub_bcrypt"
  by (simp add: bcrypt_contract_def stub_bcrypt_def)

text \<open>
  C6. When a registration with a fresh email and password \<open>P\<close> creates a vendor
  (it answers 201), looking up the email that was stored for it returns a vendor whose
  stored password is the bcrypt hash of \<open>P\<close> at cost factor 10; under the contract
  of the library this stored value verifies against \<open>P\<close> and is not \<open>P\<close> itself.
  The stored email is the email of the request when that is a string.
\<close>

theorem registered_password_verifies:
  assumes "bcrypt_contract lib"
    and "Vendor_findOne m d (req_email b) = Inr None"
    and "req_password b = Some (JString P)"
    and "status (fst (vendorRegister m lib rnd b d)) = 201"
  shows "\<exists>E v. castString m (req_email b) = Inr (Some E)
           \<and> (\<forall>s. req_email b = Some (JString s) \<longrightarrow> E = s)
           \<and> Vendor_findOne m (snd (vendorRegister m lib rnd b d)) (Some (JString E))
               = Inr (Some v)
           \<and> email v = Some E
           \<and> password v = Some (bcrypt_hash lib P 10 (salt rnd))
           \<and> compare lib (Some (JString P)) (password v) = Inr True
           \<and> password v \<noteq> Some P"
proof -
  let ?h = "bcrypt_hash lib P 10 (salt rnd)"
  from register_created [OF assms(4)] assms(3)
  obtain u E where E: "castString m (req_email b) = Inr (Some E)"
    and new: "Some E \<notin> set (map email (vendors d))"
    and d': "snd (vendorRegister m lib rnd b d) =
        d\<lparr>vendors := vendors d @
          [\<lparr>vendor_id = new_ObjectId rnd, userName = Some u, email = Some E,
            password = Some ?h, firm = []\<rparr>]\<rparr>"
    by auto
  let ?v = "\<lparr>vendor_id = new_ObjectId rnd, userName = Some u, email = Some E,
             password = Some ?h, firm = []\<rparr>"
  from new have "find (\<lambda>v. email v = Some E) (vendors d) = None"
    by (simp add: find_None_image)
  then have found: "Vendor_findOne m (snd (vendorRegister m lib rnd b d))
      (Some (JString E)) = Inr (Some ?v)"
    by (simp add: d' findOne_string find_snoc)
  from E have same: "\<forall>s. req_email b = Some (JString s) \<longrightarrow> E = s"
    by (auto simp: castString_def)
  from assms(1) have "bcrypt_compare lib P ?h" and "?h \<noteq> P"
    by (simp_all add: bcrypt_contract_def)
  then have "email ?v = Some E \<and> password ?v = Some ?h
      \<and> compare lib (Some (JString P)) (password ?v) = Inr True
      \<and> password ?v \<noteq> Some P"
    by (simp add: compare_def)
  with E same found show ?thesis by blast
qed

theorem registered_password_verifies_witness:
  "bcrypt_contract stub_bcrypt
   \<and> Vendor_findOne stub_mongoose db1 (req_email body_new) = Inr None
   \<and> req_password body_new = Some (JString ''pw'')
   \<and> status (fst (vendorRegister stub_mongoose stub_bcrypt rnd1 body_new db1)) = 201
   \<and> (\<exists>v. Vendor_findOne stub_mongoose
              (snd (vendorRegister stub_mongoose stub_bcrypt rnd1 body_new db1))
              (req_email body_new) = Inr (Some v)
         \<and> password v = Some (bcrypt_hash stub_bcrypt ''pw'' 10 (salt rnd1))
         \<and> compare stub_bcrypt (Some (JString ''pw'')) (password v) = Inr True
         \<and> password v \<noteq> Some ''pw'')"
proof -
  have h2: "Vendor_findOne stub_mongoose db1 (req_email body_new) = Inr None"
    by (simp add: findOne_string db1_def ramesh_def body_new_def)
  have h3: "req_password body_new = Some (JString ''pw'')"
    by (simp add: body_new_def)
  have h4: "status (fst (vendorRegister stub_mongoose stub_bcrypt rnd1 body_new db1)) = 201"
    by (simp add: vendorRegister_def findOne_string body_new_def hash_def new_Vendor_def
        castString_def save_def validate_def required_def rnd1_def stub_bcrypt_def
        db1_def ramesh_def)
  have e: "req_email body_new = Some (JString ''sita@example.com'')"
    by (simp add: body_new_def)
  from registered_password_verifies [OF stub_bcrypt_contract h2 h3 h4]
  obtain E v where "\<forall>s. req_email body_new = Some (JString s) \<longrightarrow> E = s"
    and f: "Vendor_findOne stub_mongoose
          (snd (vendorRegister stub_mongoose stub_bcrypt rnd1 body_new db1))
          (Some (JString E)) = Inr (Some v)"
    and p: "password v = Some (bcrypt_hash stub_bcrypt ''pw'' 10 (salt rnd1))
        \<and> compare stub_bcrypt (Some (JString ''pw'')) (password v) = Inr True
        \<and> password v \<noteq> Some ''pw''"
    by blast
  with e have "E = ''sita@example.com''" by blast
  with f e have "Vendor_findOne stub_mongoose
          (snd (vendorRegister stub_mongoose stub_bcrypt rnd1 body_new db1))
          (req_email body_new) = Inr (Some v)"
    by simp
  with p stub_bcrypt_contract h2 h3 h4 show ?thesis by blast
qed

section \<open>Uniqueness of emails\<close>

lemma save_distinct_email:
  assumes "distinct (map email (vendors d))" and "save d doc = Inr d'"
  shows "distinct (map email (vendors d'))"
  using assms by (auto simp: save_Inr)

lemma vendorLogin_db: "snd (vendorLogin m lib b d) = d"
  by (simp add: vendorLogin_def split: option.splits sum.splits bool.splits)

lemma vendorRegister_db:
  "snd (vendorRegister m lib rnd b d) = d \<or>
   (\<exists>doc. save d doc = Inr (snd (vendorRegister m lib rnd b d)))"
  by (auto simp: vendorRegister_def split: option.splits sum.splits)

lemma vendorRegister_distinct_email:
  assumes "distinct (map email (vendors d))"
  shows "distinct (map email (vendors (snd (vendorRegister m lib rnd b d))))"
  using vendorRegister_db [of m lib rnd b d] assms save_distinct_email by metis

text \<open>
  C8. Email uniqueness is an invariant of every reachable database: no two vendors
  share an email. The pre-check of \<open>vendorRegister\<close> keeps it for whole runs, and
  the unique index checked by \<open>save\<close> keeps it for an insert at any moment.
\<close>

theorem email_unique_invariant:
  assumes "reachable m lib d"
  shows "distinct (map email (vendors d))"
  using assms
proof (induction rule: reachable.induct)
  case (initial d)
  then show ?case by simp
next
  case (register d rnd b)
  then show ?case by (simp add: vendorRegister_distinct_email)
next
  case (login d b)
  then show ?case by (simp add: vendorLogin_db)
next
  case (insert d doc d')
  then show ?case by (simp add: save_distinct_email)
qed

theorem email_unique_invariant_witness:
  "reachable stub_mongoose stub_bcrypt
     (snd (vendorRegister stub_mongoose stub_bcrypt rnd1 body_ramesh
        (snd (vendorRegister stub_mongoose stub_bcrypt rnd1 body_ramesh
          \<lparr>vendors = [], firms = []\<rparr>))))
   \<and> map email (vendors
        (snd (vendorRegister stub_mongoose stub_bcrypt rnd1 body_ramesh
          (snd (vendorRegister stub_mongoose stub_bcrypt rnd1 body_ramesh
            \<lparr>vendors = [], firms = []\<rparr>)))))
       = [Some ''ramesh@example.com'']
   \<and> distinct (map email (vendors
        (snd (vendorRegister stub_mongoose stub_bcrypt rnd1 body_ramesh
          (snd (vendorRegister stub_mongoose stub_bcrypt rnd1 body_ramesh
            \<lparr>vendors = [], firms = []\<rparr>))))))"
proof -
  let ?d0 = "\<lparr>vendors = [], firms = []\<rparr>"
  let ?d1 = "snd (vendorRegister stub_mongoose stub_bcrypt rnd1 body_ramesh ?d0)"
  let ?d2 = "snd (vendorRegister stub_mongoose stub_bcrypt rnd1 body_ramesh ?d1)"
  have "reachable stub_mongoose stub_bcrypt ?d0"
    by (rule reachable.initial) simp
  then have "reachable stub_mongoose stub_bcrypt ?d1"
    by (rule reachable.register)
  then have r: "reachable stub_mongoose stub_bcrypt ?d2"
    by (rule reachable.register)
  have e: "map email (vendors ?d2) = [Some ''ramesh@example.com'']"
    by (simp add: vendorRegister_def findOne_string body_ramesh_def hash_def save_def
        validate_def required_def new_Vendor_def castString_def rnd1_def stub_bcrypt_def)
  from email_unique_invariant [OF r] r e show ?thesis by blast
qed

section \<open>Login\<close>

text \<open>
  C3. A login whose email matches no vendor and a login whose email is known but whose
  password the bcrypt comparison rejects get the same answer: status 401 with the one
  body \<open>{error: "Invalid username or password"}\<close>, which does not tell the two
  causes apart.
\<close>

theorem login_failures_indistinguishable:
  assumes "Vendor_findOne m d (req_email b1) = Inr None"
    and "Vendor_findOne m d (req_email b2) = Inr (Some v)"
    and "req_password b2 = Some (JString p)" and "password v = Some h"
    and "\<not> bcrypt_compare lib p h"
  shows "fst (vendorLogin m lib b1 d) = fst (vendorLogin m lib b2 d)
         \<and> fst (vendorLogin m lib b1 d) =
             \<lparr>status = 401,
              body = JObject [(''error'', JString ''Invalid username or password'')]\<rparr>"
  using assms by (simp add: vendorLogin_def compare_def)

theorem login_failures_indistinguishable_witness:
  "Vendor_findOne stub_mongoose db1 (req_email body_new) = Inr None
   \<and> Vendor_findOne stub_mongoose db1
        (req_email (body_ramesh\<lparr>req_password := Some (JString ''guess'')\<rparr>)) = Inr (Some ramesh)
   \<and> req_password (body_ramesh\<lparr>req_password := Some (JString ''guess'')\<rparr>)
        = Some (JString ''guess'')
   \<and> password ramesh = Some ''strongpassword123$salt''
   \<and> \<not> bcrypt_compare stub_bcrypt ''guess'' ''strongpassword123$salt''
   \<and> fst (vendorLogin stub_mongoose stub_bcrypt body_new db1) =
       fst (vendorLogin stub_mongoose stub_bcrypt
              (body_ramesh\<lparr>req_password := Some (JString ''guess'')\<rparr>) db1)
   \<and> fst (vendorLogin stub_mongoose stub_bcrypt body_new db1) =
       \<lparr>status = 401, body = JObject [(''error'', JString ''Invalid username or password'')]\<rparr>"
proof -
  have h1: "Vendor_findOne stub_mongoose db1 (req_email body_new) = Inr None"
    by (simp add: findOne_string db1_def ramesh_def body_new_def)
  have h2: "Vendor_findOne stub_mongoose db1
      (req_email (body_ramesh\<lparr>req_password := Some (JString ''guess'')\<rparr>)) = Inr (Some ramesh)"
    by (simp add: findOne_string db1_def ramesh_def body_ramesh_def)
  have h3: "req_password (body_ramesh\<lparr>req_password := Some (JString ''guess'')\<rparr>)
      = Some (JString ''guess'')"
    by simp
  have h4: "password ramesh = Some ''strongpassword123$salt''"
    by (simp add: ramesh_def)
  have h5: "\<not> bcrypt_compare stub_bcrypt ''guess'' ''strongpassword123$salt''"
    by (simp add: stub_bcrypt_def)
  from login_failures_indistinguishable [OF h1 h2 h3 h4 h5] h1 h2 h3 h4 h5
  show ?thesis by blast
qed

text \<open>
  C9. A login with correct credentials is answered 200 with the body
  \<open>{success: "Login successful"}\<close>; no token is issued: the body has the single
  member \<open>success\<close> and no member named \<open>token\<close> at any depth.
\<close>

theorem login_success_without_token:
  assumes "Vendor_findOne m d (req_email b) = Inr (Some v)"
    and "req_password b = Some (JString p)" and "password v = Some h"
    and "bcrypt_compare lib p h"
  shows "fst (vendorLogin m lib b d) =
           \<lparr>status = 200, body = JObject [(''success'', JString ''Login successful'')]\<rparr>
         \<and> json_keys (body (fst (vendorLogin m lib b d))) = [''success'']
         \<and> ''token'' \<notin> set (json_keys (body (fst (vendorLogin m lib b d))))"
  using assms by (simp add: vendorLogin_def compare_def)

theorem login_success_without_token_witness:
  "Vendor_findOne stub_mongoose db1 (req_email body_ramesh) = Inr (Some ramesh)
   \<and> req_password body_ramesh = Some (JString ''strongpassword123'')
   \<and> password ramesh = Some ''strongpassword123$salt''
   \<and> bcrypt_compare stub_bcrypt ''strongpassword123'' ''strongpassword123$salt''
   \<and> fst (vendorLogin stub_mongoose stub_bcrypt body_ramesh db1) =
        \<lparr>status = 200, body = JObject [(''success'', JString ''Login successful'')]\<rparr>
   \<and> json_keys (body (fst (vendorLogin stub_mongoose stub_bcrypt body_ramesh db1)))
        = [''success'']
   \<and> ''token'' \<notin> set (json_keys
        (body (fst (vendorLogin stub_mongoose stub_bcrypt body_ramesh db1))))"
proof -
  have h1: "Vendor_findOne stub_mongoose db1 (req_email body_ramesh) = Inr (Some ramesh)"
    by (simp add: findOne_string db1_def ramesh_def body_ramesh_def)
  have h2: "req_password body_ramesh = Some (JString ''strongpassword123'')"
    by (simp add: body_ramesh_def)
  have h3: "password ramesh = Some ''strongpassword123$salt''"
    by (simp add: ramesh_def)
  have h4: "bcrypt_compare stub_bcrypt ''strongpassword123'' ''strongpassword123$salt''"
    by (simp add: stub_bcrypt_def)
  from login_success_without_token [OF h1 h2 h3 h4] h1 h2 h3 h4
  show ?thesis by blast
qed

text \<open>
  C10. \<open>vendorLogin\<close> is read-only: whether it answers 200 (success), 401 (invalid
  credentials) or 500 (internal error), and it answers nothing else, the database it
  leaves is the database it found.
\<close>

theorem login_read_only:
  "snd (vendorLogin m lib b d) = d
   \<and> status (fst (vendorLogin m lib b d)) \<in> {200, 401, 500}"
  by (simp add: vendorLogin_def internal_server_error_def
      split: option.splits sum.splits bool.splits)

section \<open>Tokens\<close>

lemma split_no_sep: "c \<notin> set s \<Longrightarrow> split c s = [s]"
  by (induction s) auto

lemma split_bearer:
  "CHR '' '' \<notin> set tok \<Longrightarrow> index (split CHR '' '' (''Bearer '' @ tok)) 1 = Some tok"
  by (simp add: split_no_sep index_def)

lemma unesc_plain: "a \<noteq> CHR ''+'' \<Longrightarrow> unesc (a # r) = a # unesc r"
  by (cases r) auto

lemma unesc_esc: "unesc (esc s) = s"
  by (induction s) (auto simp: unesc_plain)

lemma esc_no_space: "CHR '' '' \<notin> set (esc s)"
  by (induction s) auto

lemma takeWhile_replicate_sep:
  "y \<noteq> x \<Longrightarrow> takeWhile (\<lambda>c. c = x) (replicate n x @ y # ys) = replicate n x"
  by (induction n) auto

lemma stub_verify_sign:
  "stub_verify (stub_sign p k ttl t0) k t =
     (if t < t0 + ttl then Inr (p\<lparr>iat := Some t0, exp := Some (t0 + ttl)\<rparr>)
      else Inl TokenExpiredError)"
  by (cases p)
     (auto simp: stub_verify_def stub_sign_def takeWhile_replicate_sep Let_def unesc_esc
       split: option.splits)

lemma stub_sign_shape:
  "stub_sign p k ttl t0 \<noteq> [] \<and> CHR '' '' \<notin> set (stub_sign p k ttl t0)"
  by (auto simp: stub_sign_def esc_no_space split: option.splits)

lemma stub_jwt_contract: "jwt_contract stub_jwt"
  by (simp add: jwt_contract_def stub_jwt_def stub_verify_sign stub_sign_shape)

lemma auth_token:
  assumes "authorization_token req = Some tok" and "tok \<noteq> []"
  shows "auth lib k t req = verified req (jwt_verify lib tok k t)"
  using assms by (simp add: auth_def falsy_def)

lemma verifyToken_token:
  assumes "headers req ''token'' = Some tok" and "tok \<noteq> []"
  shows "verifyToken lib k t req = verified req (jwt_verify lib tok k t)"
  using assms by (simp add: verifyToken_def falsy_def)

lemma issue_verify:
  assumes "jwt_contract lib"
  shows "jwt_verify lib (issue lib k t0 X) k t =
           (if t < t0 + 3600
            then Inr \<lparr>vendorId = Some X, iat = Some t0, exp = Some (t0 + 3600)\<rparr>
            else Inl TokenExpiredError)"
  using assms by (simp add: jwt_contract_def issue_def)

lemma issue_shape:
  assumes "jwt_contract lib"
  shows "issue lib k t0 X \<noteq> [] \<and> CHR '' '' \<notin> set (issue lib k t0 X)"
  using assms by (simp add: jwt_contract_def issue_def)

text \<open>
  C4. A token issued for subject \<open>X\<close> at time \<open>t0\<close> expires one hour (3600 seconds)
  later. Presented to \<open>auth\<close> in \<open>Authorization: Bearer <token>\<close>, or to
  \<open>verifyToken\<close> in the \<open>token\<close> header, before its expiry, it yields subject
  \<open>X\<close>: the middleware passes the request on with \<open>vendorId\<close> set to \<open>X\<close>. From
  the expiry on the token is rejected with 403. The library is assumed to keep its
  contract.
\<close>

theorem issued_token_verifies_until_expiry:
  assumes "jwt_contract lib"
  shows "(headers req ''authorization'' = Some (''Bearer '' @ issue lib secretKey t0 X) \<longrightarrow>
            auth lib secretKey t req =
              (if t < t0 + 3600 then Next (req\<lparr>req_vendorId := Some X\<rparr>)
               else Respond \<lparr>status = 403,
                              body = JObject [(''error'', JString ''Invalid token'')]\<rparr>))
         \<and> (headers req ''token'' = Some (issue lib secretKey t0 X) \<longrightarrow>
            verifyToken lib secretKey t req =
              (if t < t0 + 3600 then Next (req\<lparr>req_vendorId := Some X\<rparr>)
               else Respond \<lparr>status = 403,
                              body = JObject [(''error'', JString ''Invalid token'')]\<rparr>))"
proof (intro conjI impI)
  note shape = issue_shape [OF assms, of secretKey t0 X]
  note verify = issue_verify [OF assms, of secretKey t0 X t]
  {
    assume h: "headers req ''authorization'' = Some (''Bearer '' @ issue lib secretKey t0 X)"
    from shape have "index (split CHR '' '' (''Bearer '' @ issue lib secretKey t0 X)) 1
        = Some (issue lib secretKey t0 X)"
      by (intro split_bearer) simp
    with h have "authorization_token req = Some (issue lib secretKey t0 X)"
      by (simp add: authorization_token_def)
    with shape
    have "auth lib secretKey t req =
        verified req (jwt_verify lib (issue lib secretKey t0 X) secretKey t)"
      by (simp add: auth_token)
    with verify show "auth lib secretKey t req =
        (if t < t0 + 3600 then Next (req\<lparr>req_vendorId := Some X\<rparr>)
         else Respond \<lparr>status = 403,
                        body = JObject [(''error'', JString ''Invalid token'')]\<rparr>)"
      by (simp add: verified_def)
  }
  {
    assume h: "headers req ''token'' = Some (issue lib secretKey t0 X)"
    with shape
    have "verifyToken lib secretKey t req =
        verified req (jwt_verify lib (issue lib secretKey t0 X) secretKey t)"
      by (simp add: verifyToken_token)
    with verify show "verifyToken lib secretKey t req =
        (if t < t0 + 3600 then Next (req\<lparr>req_vendorId := Some X\<rparr>)
         else Respond \<lparr>status = 403,
                        body = JObject [(''error'', JString ''Invalid token'')]\<rparr>)"
      by (simp add: verified_def)
  }
qed

theorem issued_token_verifies_until_expiry_witness:
  "jwt_contract stub_jwt
   \<and> headers req_bearer ''authorization'' =
        Some (''Bearer '' @ issue stub_jwt ''secret'' 100 ''65afbd23c09e11'')
   \<and> headers req_bearer ''token'' = Some (issue stub_jwt ''secret'' 100 ''65afbd23c09e11'')
   \<and> auth stub_jwt ''secret'' 3699 req_bearer =
        Next (req_bearer\<lparr>req_vendorId := Some ''65afbd23c09e11''\<rparr>)
   \<and> auth stub_jwt ''secret'' 3700 req_bearer =
        Respond \<lparr>status = 403, body = JObject [(''error'', JString ''Invalid token'')]\<rparr>
   \<and> verifyToken stub_jwt ''secret'' 3699 req_bearer =
        Next (req_bearer\<lparr>req_vendorId := Some ''65afbd23c09e11''\<rparr>)
   \<and> verifyToken stub_jwt ''secret'' 3700 req_bearer =
        Respond \<lparr>status = 403, body = JObject [(''error'', JString ''Invalid token'')]\<rparr>"
proof -
  have h1: "headers req_bearer ''authorization'' =
      Some (''Bearer '' @ issue stub_jwt ''secret'' 100 ''65afbd23c09e11'')"
    by (simp add: req_bearer_def)
  have h2: "headers req_bearer ''token'' =
      Some (issue stub_jwt ''secret'' 100 ''65afbd23c09e11'')"
    by (simp add: req_bearer_def)
  from issued_token_verifies_until_expiry
         [OF stub_jwt_contract, of req_bearer "''secret''" 100 "''65afbd23c09e11''" 3699]
       issued_token_verifies_until_expiry
         [OF stub_jwt_contract, of req_bearer "''secret''" 100 "''65afbd23c09e11''" 3700]
       h1 h2 stub_jwt_contract
  show ?thesis by simp
qed

text \<open>
  C5. The token middlewares \<open>auth\<close> and \<open>verifyToken\<close>: a request that presents
  no credential is rejected with 401 and a missing-token error, whether the header is
  absent (no \<open>Authorization\<close> header, no \<open>token\<close> header) or is there without a
  token in it (an \<open>Authorization\<close> value with no second piece or an empty one, an
  empty \<open>token\<close> header); a request whose token the library's verification refuses
  is rejected with 403 and the invalid-token error; and when verification succeeds, the
  \<open>vendorId\<close> of the decoded payload is attached to the request, which is then
  handed to the next handler. The cases cover every request.
\<close>

theorem token_middleware_outcomes:
  "(headers req ''authorization'' = None \<longrightarrow>
      auth lib k t req =
        Respond \<lparr>status = 401, body = JObject [(''error'', JString ''Token missing'')]\<rparr>)
   \<and> (headers req ''authorization'' = Some a
        \<and> (index (split CHR '' '' a) 1 = None \<or> index (split CHR '' '' a) 1 = Some []) \<longrightarrow>
      auth lib k t req =
        Respond \<lparr>status = 401, body = JObject [(''error'', JString ''Token missing'')]\<rparr>)
   \<and> (headers req ''authorization'' = Some a \<and> index (split CHR '' '' a) 1 = Some tok
        \<and> tok \<noteq> [] \<and> jwt_verify lib tok k t = Inl err \<longrightarrow>
      auth lib k t req =
        Respond \<lparr>status = 403, body = JObject [(''error'', JString ''Invalid token'')]\<rparr>)
   \<and> (headers req ''authorization'' = Some a \<and> index (split CHR '' '' a) 1 = Some tok
        \<and> tok \<noteq> [] \<and> jwt_verify lib tok k t = Inr decoded \<longrightarrow>
      auth lib k t req = Next (req\<lparr>req_vendorId := vendorId decoded\<rparr>))
   \<and> (headers req ''token'' = None \<or> headers req ''token'' = Some [] \<longrightarrow>
      verifyToken lib k t req =
        Respond \<lparr>status = 401, body = JObject [(''error'', JString ''Token required'')]\<rparr>)
   \<and> (headers req ''token'' = Some tok \<and> tok \<noteq> [] \<and> jwt_verify lib tok k t = Inl err \<longrightarrow>
      verifyToken lib k t req =
        Respond \<lparr>status = 403, body = JObject [(''error'', JString ''Invalid token'')]\<rparr>)
   \<and> (headers req ''token'' = Some tok \<and> tok \<noteq> [] \<and> jwt_verify lib tok k t = Inr decoded \<longrightarrow>
      verifyToken lib k t req = Next (req\<lparr>req_vendorId := vendorId decoded\<rparr>))"
proof (intro conjI impI)
  assume "headers req ''authorization'' = None"
  then show "auth lib k t req =
      Respond \<lparr>status = 401, body = JObject [(''error'', JString ''Token missing'')]\<rparr>"
    by (simp add: auth_def authorization_token_def falsy_def)
next
  assume "headers req ''authorization'' = Some a
      \<and> (index (split CHR '' '' a) 1 = None \<or> index (split CHR '' '' a) 1 = Some [])"
  then have "authorization_token req = None \<or> authorization_token req = Some []"
    by (auto simp: authorization_token_def)
  then show "auth lib k t req =
      Respond \<lparr>status = 401, body = JObject [(''error'', JString ''Token missing'')]\<rparr>"
    by (auto simp: auth_def falsy_def)
next
  assume "headers req ''authorization'' = Some a \<and> index (split CHR '' '' a) 1 = Some tok
      \<and> tok \<noteq> [] \<and> jwt_verify lib tok k t = Inl err"
  then have "authorization_token req = Some tok \<and> tok \<noteq> []
      \<and> jwt_verify lib tok k t = Inl err"
    by (simp add: authorization_token_def)
  then show "auth lib k t req =
      Respond \<lparr>status = 403, body = JObject [(''error'', JString ''Invalid token'')]\<rparr>"
    by (simp add: auth_token verified_def)
next
  assume "headers req ''authorization'' = Some a \<and> index (split CHR '' '' a) 1 = Some tok
      \<and> tok \<noteq> [] \<and> jwt_verify lib tok k t = Inr decoded"
  then have "authorization_token req = Some tok \<and> tok \<noteq> []
      \<and> jwt_verify lib tok k t = Inr decoded"
    by (simp add: authorization_token_def)
  then show "auth lib k t req = Next (req\<lparr>req_vendorId := vendorId decoded\<rparr>)"
    by (simp add: auth_token verified_def)
next
  assume "headers req ''token'' = None \<or> headers req ''token'' = Some []"
  then show "verifyToken lib k t req =
      Respond \<lparr>status = 401, body = JObject [(''error'', JString ''Token required'')]\<rparr>"
    by (auto simp: verifyToken_def falsy_def)
next
  assume "headers req ''token'' = Some tok \<and> tok \<noteq> [] \<and> jwt_verify lib tok k t = Inl err"
  then show "verifyToken lib k t req =
      Respond \<lparr>status = 403, body = JObject [(''error'', JString ''Invalid token'')]\<rparr>"
    by (simp add: verifyToken_token verified_def)
next
  assume "headers req ''token'' = Some tok \<and> tok \<noteq> [] \<and> jwt_verify lib tok k t = Inr decoded"
  then show "verifyToken lib k t req = Next (req\<lparr>req_vendorId := vendorId decoded\<rparr>)"
    by (simp add: verifyToken_token verified_def)
qed

theorem token_middleware_outcomes_witness:
  "headers req_anonymous ''authorization'' = None
   \<and> auth stub_jwt ''secret'' 200 req_anonymous =
        Respond \<lparr>status = 401, body = JObject [(''error'', JString ''Token missing'')]\<rparr>
   \<and> headers req_anonymous ''token'' = None
   \<and> verifyToken stub_jwt ''secret'' 200 req_anonymous =
        Respond \<lparr>status = 401, body = JObject [(''error'', JString ''Token required'')]\<rparr>
   \<and> headers req_scheme_only ''authorization'' = Some ''Bearer''
   \<and> index (split CHR '' '' ''Bearer'') 1 = None
   \<and> auth stub_jwt ''secret'' 200 req_scheme_only =
        Respond \<lparr>status = 401, body = JObject [(''error'', JString ''Token missing'')]\<rparr>
   \<and> headers req_scheme_only ''token'' = Some ''''
   \<and> verifyToken stub_jwt ''secret'' 200 req_scheme_only =
        Respond \<lparr>status = 401, body = JObject [(''error'', JString ''Token required'')]\<rparr>
   \<and> headers req_empty_token ''authorization'' = Some ''Bearer ''
   \<and> index (split CHR '' '' ''Bearer '') 1 = Some ''''
   \<and> auth stub_jwt ''secret'' 200 req_empty_token =
        Respond \<lparr>status = 401, body = JObject [(''error'', JString ''Token missing'')]\<rparr>
   \<and> headers req_garbage ''authorization'' = Some ''Bearer garbage''
   \<and> index (split CHR '' '' ''Bearer garbage'') 1 = Some ''garbage''
   \<and> headers req_garbage ''token'' = Some ''garbage''
   \<and> jwt_verify stub_jwt ''garbage'' ''secret'' 200 = Inl TokenExpiredError
   \<and> auth stub_jwt ''secret'' 200 req_garbage =
        Respond \<lparr>status = 403, body = JObject [(''error'', JString ''Invalid token'')]\<rparr>
   \<and> verifyToken stub_jwt ''secret'' 200 req_garbage =
        Respond \<lparr>status = 403, body = JObject [(''error'', JString ''Invalid token'')]\<rparr>
   \<and> jwt_verify stub_jwt (issue stub_jwt ''secret'' 100 ''65afbd23c09e11'') ''secret'' 200 =
        Inr \<lparr>vendorId = Some ''65afbd23c09e11'', iat = Some 100, exp = Some 3700\<rparr>
   \<and> auth stub_jwt ''secret'' 200 req_bearer =
        Next (req_bearer\<lparr>req_vendorId := Some ''65afbd23c09e11''\<rparr>)
   \<and> verifyToken stub_jwt ''secret'' 200 req_bearer =
        Next (req_bearer\<lparr>req_vendorId := Some ''65afbd23c09e11''\<rparr>)"
proof -
  let ?tok = "issue stub_jwt ''secret'' 100 ''65afbd23c09e11''"
  let ?decoded = "\<lparr>vendorId = Some ''65afbd23c09e11'', iat = Some 100, exp = Some 3700\<rparr>"
  have a1: "headers req_anonymous ''authorization'' = None"
    and a2: "headers req_anonymous ''token'' = None"
    by (simp_all add: req_anonymous_def)
  have s1: "headers req_scheme_only ''authorization'' = Some ''Bearer''"
    and s2: "headers req_scheme_only ''token'' = Some ''''"
    by (simp_all add: req_scheme_only_def)
  have s3: "index (split CHR '' '' ''Bearer'') 1 = None"
    by (simp add: index_def)
  have e1: "headers req_empty_token ''authorization'' = Some ''Bearer ''"
    by (simp add: req_empty_token_def)
  have e2: "index (split CHR '' '' ''Bearer '') 1 = Some ''''"
    by (simp add: index_def)
  have g1: "headers req_garbage ''authorization'' = Some ''Bearer garbage''"
    and g2: "headers req_garbage ''token'' = Some ''garbage''"
    by (simp_all add: req_garbage_def)
  have g3: "index (split CHR '' '' ''Bearer garbage'') 1 = Some ''garbage''"
    by (simp add: index_def)
  have g4: "jwt_verify stub_jwt ''garbage'' ''secret'' 200 = Inl TokenExpiredError"
    by (simp add: stub_jwt_def stub_verify_def)
  have b1: "headers req_bearer ''authorization'' = Some (''Bearer '' @ ?tok)"
    and b2: "headers req_bearer ''token'' = Some ?tok"
    by (simp_all add: req_bearer_def)
  have b3: "index (split CHR '' '' (''Bearer '' @ ?tok)) 1 = Some ?tok"
    using issue_shape [OF stub_jwt_contract] by (intro split_bearer) simp
  have b4: "?tok \<noteq> []"
    using issue_shape [OF stub_jwt_contract] by simp
  have b5: "jwt_verify stub_jwt ?tok ''secret'' 200 = Inr ?decoded"
    by (simp add: issue_verify [OF stub_jwt_contract])
  note anon = token_middleware_outcomes [of req_anonymous stub_jwt "''secret''" 200]
  note scheme = token_middleware_outcomes
    [of req_scheme_only stub_jwt "''secret''" 200 "''Bearer''"]
  note empty = token_middleware_outcomes
    [of req_empty_token stub_jwt "''secret''" 200 "''Bearer ''"]
  note garb = token_middleware_outcomes
    [of req_garbage stub_jwt "''secret''" 200 "''Bearer garbage''" "''garbage''"
      TokenExpiredError]
  note bear = token_middleware_outcomes
    [of req_bearer stub_jwt "''secret''" 200 "''Bearer '' @ ?tok" ?tok _ ?decoded]
  from anon a1 a2
  have r1: "auth stub_jwt ''secret'' 200 req_anonymous =
        Respond \<lparr>status = 401, body = JObject [(''error'', JString ''Token missing'')]\<rparr>"
    and r2: "verifyToken stub_jwt ''secret'' 200 req_anonymous =
        Respond \<lparr>status = 401, body = JObject [(''error'', JString ''Token required'')]\<rparr>"
    by blast+
  from scheme s1 s2 s3
  have r7: "auth stub_jwt ''secret'' 200 req_scheme_only =
        Respond \<lparr>status = 401, body = JObject [(''error'', JString ''Token missing'')]\<rparr>"
    and r8: "verifyToken stub_jwt ''secret'' 200 req_scheme_only =
        Respond \<lparr>status = 401, body = JObject [(''error'', JString ''Token required'')]\<rparr>"
    by blast+
  from empty e1 e2
  have r9: "auth stub_jwt ''secret'' 200 req_empty_token =
        Respond \<lparr>status = 401, body = JObject [(''error'', JString ''Token missing'')]\<rparr>"
    by blast
  from garb g1 g2 g3 g4
  have r3: "auth stub_jwt ''secret'' 200 req_garbage =
        Respond \<lparr>status = 403, body = JObject [(''error'', JString ''Invalid token'')]\<rparr>"
    and r4: "verifyToken stub_jwt ''secret'' 200 req_garbage =
        Respond \<lparr>status = 403, body = JObject [(''error'', JString ''Invalid token'')]\<rparr>"
    by simp_all
  from bear b1 b2 b3 b4 b5
  have r5: "auth stub_jwt ''secret'' 200 req_bearer =
        Next (req_bearer\<lparr>req_vendorId := Some ''65afbd23c09e11''\<rparr>)"
    and r6: "verifyToken stub_jwt ''secret'' 200 req_bearer =
        Next (req_bearer\<lparr>req_vendorId := Some ''65afbd23c09e11''\<rparr>)"
    by simp_all
  from a1 a2 s1 s2 s3 e1 e2 g1 g2 g3 g4 b5 r1 r2 r3 r4 r5 r6 r7 r8 r9
  show ?thesis by blast
qed

section \<open>The single vendor\<close>

lemma map_filter_find_ids:
  "map firm_id (List.map_filter (\<lambda>r. find (\<lambda>f. firm_id f = r) fs) rs) =
     filter (\<lambda>r. r \<in> set (map firm_id fs)) rs"
proof (induction rs)
  case Nil
  then show ?case by simp
next
  case (Cons r rs)
  show ?case
  proof (cases "find (\<lambda>f. firm_id f = r) fs")
    case None
    then have "r \<notin> set (map firm_id fs)"
      by (simp add: find_None_image)
    with None Cons show ?thesis by simp
  next
    case (Some f)
    then have f: "f \<in> set fs \<and> firm_id f = r"
      by (rule find_SomeD)
    then have "r \<in> set (map firm_id fs)" by force
    with Some Cons f show ?thesis by simp
  qed
qed

lemma map_filter_find_subset:
  "set (List.map_filter (\<lambda>r. find (\<lambda>f. firm_id f = r) fs) rs) \<subseteq> set fs"
proof (induction rs)
  case Nil
  then show ?case by simp
next
  case (Cons r rs)
  show ?case
  proof (cases "find (\<lambda>f. firm_id f = r) fs")
    case None
    with Cons show ?thesis by simp
  next
    case (Some f)
    then have "f \<in> set fs" by (auto dest: find_SomeD)
    with Some Cons show ?thesis by simp
  qed
qed

text \<open>
  C7. \<open>getVendorById\<close> fails with \<open>InvalidId\<close> when the identifier is malformed,
  fails with \<open>NotFound\<close> (status 404) when it is well-formed but no vendor has it,
  and otherwise returns the vendor with that identifier, its fields as stored and its
  firm references replaced by firm documents of the database: the documents carry, in
  order, the referenced identifiers that exist, which are all of them when every
  reference resolves.
\<close>

theorem getVendorById_outcomes:
  "(\<not> wellformed i \<longrightarrow> getVendorById wellformed d i = Inl InvalidId)
   \<and> (wellformed i \<and> i \<notin> set (map vendor_id (vendors d)) \<longrightarrow>
        getVendorById wellformed d i = Inl NotFound)
   \<and> error_status NotFound = 404
   \<and> (wellformed i \<and> i \<in> set (map vendor_id (vendors d)) \<longrightarrow>
        (\<exists>v pv. v \<in> set (vendors d) \<and> vendor_id v = i
           \<and> getVendorById wellformed d i = Inr pv
           \<and> pv_id pv = i \<and> pv_userName pv = userName v \<and> pv_email pv = email v
           \<and> pv_password pv = password v
           \<and> set (pv_firm pv) \<subseteq> set (firms d)
           \<and> map firm_id (pv_firm pv) =
               filter (\<lambda>r. r \<in> set (map firm_id (firms d))) (firm v)
           \<and> (set (firm v) \<subseteq> set (map firm_id (firms d)) \<longrightarrow>
                map firm_id (pv_firm pv) = firm v)))"
proof (intro conjI impI)
  assume "\<not> wellformed i"
  then show "getVendorById wellformed d i = Inl InvalidId"
    by (simp add: getVendorById_def)
next
  assume "wellformed i \<and> i \<notin> set (map vendor_id (vendors d))"
  then have "wellformed i" and "find (\<lambda>v. vendor_id v = i) (vendors d) = None"
    by (simp_all add: find_None_image)
  then show "getVendorById wellformed d i = Inl NotFound"
    by (simp add: getVendorById_def Vendor_findById_def)
next
  show "error_status NotFound = 404"
    by (simp add: error_status_def)
next
  assume a: "wellformed i \<and> i \<in> set (map vendor_id (vendors d))"
  then have "find (\<lambda>v. vendor_id v = i) (vendors d) \<noteq> None"
    by (simp add: find_None_image)
  then obtain v where v: "find (\<lambda>v. vendor_id v = i) (vendors d) = Some v"
    by blast
  then have vin: "v \<in> set (vendors d) \<and> vendor_id v = i"
    by (rule find_SomeD)
  from a v have res: "getVendorById wellformed d i = Inr (populate d v)"
    by (simp add: getVendorById_def Vendor_findById_def)
  have ids: "map firm_id (pv_firm (populate d v)) =
      filter (\<lambda>r. r \<in> set (map firm_id (firms d))) (firm v)"
    by (simp add: populate_def map_filter_find_ids)
  have sub: "set (pv_firm (populate d v)) \<subseteq> set (firms d)"
    by (simp add: populate_def map_filter_find_subset)
  have all: "set (firm v) \<subseteq> set (map firm_id (firms d)) \<longrightarrow>
      map firm_id (pv_firm (populate d v)) = firm v"
    unfolding ids by (auto simp: filter_id_conv)
  have flds: "pv_id (populate d v) = i \<and> pv_userName (populate d v) = userName v
      \<and> pv_email (populate d v) = email v \<and> pv_password (populate d v) = password v"
    using vin by (simp add: populate_def)
  from vin res ids sub all flds
  show "\<exists>v pv. v \<in> set (vendors d) \<and> vendor_id v = i
           \<and> getVendorById wellformed d i = Inr pv
           \<and> pv_id pv = i \<and> pv_userName pv = userName v \<and> pv_email pv = email v
           \<and> pv_password pv = password v
           \<and> set (pv_firm pv) \<subseteq> set (firms d)
           \<and> map firm_id (pv_firm pv) =
               filter (\<lambda>r. r \<in> set (map firm_id (firms d))) (firm v)
           \<and> (set (firm v) \<subseteq> set (map firm_id (firms d)) \<longrightarrow>
                map firm_id (pv_firm pv) = firm v)"
    by blast
qed

theorem getVendorById_outcomes_witness:
  "\<not> hex_string ''not-an-id''
   \<and> getVendorById hex_string db1 ''not-an-id'' = Inl InvalidId
   \<and> hex_string ''65afbd23c09e99''
   \<and> ''65afbd23c09e99'' \<notin> set (map vendor_id (vendors db1))
   \<and> getVendorById hex_string db1 ''65afbd23c09e99'' = Inl NotFound
   \<and> hex_string ''65afbd23c09e11''
   \<and> ''65afbd23c09e11'' \<in> set (map vendor_id (vendors db1))
   \<and> getVendorById hex_string db1 ''65afbd23c09e11'' =
        Inr \<lparr>pv_id = ''65afbd23c09e11'', pv_userName = Some ''Ramesh'',
             pv_email = Some ''ramesh@example.com'',
             pv_password = Some ''strongpassword123$salt'',
             pv_firm = [\<lparr>firm_id = ''64ab12'', firmName = ''Ramesh Foods''\<rparr>]\<rparr>"
proof -
  have h1: "\<not> hex_string ''not-an-id''"
    by (simp add: hex_string_def)
  have h2: "hex_string ''65afbd23c09e99''
      \<and> ''65afbd23c09e99'' \<notin> set (map vendor_id (vendors db1))"
    by (simp add: hex_string_def db1_def ramesh_def)
  have h3: "hex_string ''65afbd23c09e11''
      \<and> ''65afbd23c09e11'' \<in> set (map vendor_id (vendors db1))"
    by (simp add: hex_string_def db1_def ramesh_def)
  from getVendorById_outcomes [of hex_string "''not-an-id''" db1] h1
  have r1: "getVendorById hex_string db1 ''not-an-id'' = Inl InvalidId"
    by blast
  from getVendorById_outcomes [of hex_string "''65afbd23c09e99''" db1] h2
  have r2: "getVendorById hex_string db1 ''65afbd23c09e99'' = Inl NotFound"
    by blast
  from getVendorById_outcomes [of hex_string "''65afbd23c09e11''" db1] h3
  obtain v pv where "v \<in> set (vendors db1)"
    and "getVendorById hex_string db1 ''65afbd23c09e11'' = Inr pv"
    and "pv_id pv = ''65afbd23c09e11''" and "pv_userName pv = userName v"
    and "pv_email pv = email v" and "pv_password pv = password v"
    and "map firm_id (pv_firm pv) =
           filter (\<lambda>r. r \<in> set (map firm_id (firms db1))) (firm v)"
    and "set (pv_firm pv) \<subseteq> set (firms db1)"
    by blast
  then have r3: "getVendorById hex_string db1 ''65afbd23c09e11'' =
        Inr \<lparr>pv_id = ''65afbd23c09e11'', pv_userName = Some ''Ramesh'',
             pv_email = Some ''ramesh@example.com'',
             pv_password = Some ''strongpassword123$salt'',
             pv_firm = [\<lparr>firm_id = ''64ab12'', firmName = ''Ramesh Foods''\<rparr>]\<rparr>"
    by (cases pv) (auto simp: db1_def ramesh_def)
  from h1 h2 h3 r1 r2 r3 show ?thesis by blast
qed

end
